theory Spec2Isabelle
  imports Main "HOL-Library.Word"
begin

section \<open>The block command-line tool (cmd/block/block.go)\<close>

text \<open>
  The program is a command dispatcher: each mode (\<^verbatim>\<open>build\<close>, \<^verbatim>\<open>new\<close>, \<^verbatim>\<open>sign\<close>,
  \<^verbatim>\<open>validate\<close>, ...) parses its flags, reads its input, calls into the packages
  \<^verbatim>\<open>protocol\<close>, \<^verbatim>\<open>bc\<close>, \<^verbatim>\<open>state\<close>, \<^verbatim>\<open>validation\<close> and \<^verbatim>\<open>ed25519\<close>, and writes its
  output. The modes are embedded as functions from their inputs to a record of everything
  the run does: how it ends, what it writes to standard output and standard error, which
  files it writes, and the sequence of package calls it makes. The package functions are
  not part of this file; they are parameters of the model (the record \<open>lib\<close>).
\<close>

subsection \<open>Data model\<close>

type_synonym bytes = "8 word list"
type_synonym Hash = bytes

text \<open>A point in time (\<^verbatim>\<open>time.Time\<close>), opaque to the program.\<close>

type_synonym Time = int

text \<open>
  Error values. \<open>LibError\<close> is an error returned by a package or by the operating
  system; the other two are the errors the program builds itself with \<^verbatim>\<open>fmt.Errorf\<close>:
  \<^verbatim>\<open>"bad pubkey length %d, want 32"\<close> and \<^verbatim>\<open>"-quorum must be between 1 and %d"\<close>.
\<close>

datatype error =
    LibError string
  | BadPubkeyLength nat
  | QuorumRange nat

text \<open>
  The fields of a predicate, a block header and a raw transaction are those the modes
  \<^verbatim>\<open>header\<close> and \<^verbatim>\<open>tx\<close> print. A block embeds an unsigned block, which embeds a header
  (the program reads \<^verbatim>\<open>b.Height\<close> and builds \<^verbatim>\<open>bc.Block{UnsignedBlock: ub}\<close>); the
  signature list of a block has one slot per signer, present or absent. The unsigned
  block of a decoded block, its header and the next predicate of a header are values:
  the program dereferences them without a nil test. The heights and the other unsigned
  fields are 64-bit words; the program compares a height with 1 and does no arithmetic
  on them. A transaction and a snapshot have the fields the spec gives them (section 3);
  the program only passes them on.
\<close>

record Predicate =
  pred_Version :: "64 word"
  Quorum :: int
  Pubkeys :: "bytes list"

record BlockHeader =
  Version :: "64 word"
  Height :: "64 word"
  PreviousBlockId :: "Hash option"
  TimestampMs :: "64 word"
  Runlimit :: int
  RefsCount :: "64 word"
  TransactionsRoot :: Hash
  ContractsRoot :: Hash
  NoncesRoot :: Hash
  NextPredicate :: Predicate

record RawTx =
  Program :: bytes
  raw_Version :: "64 word"
  raw_Runlimit :: int

record Tx =
  tx_Program :: bytes
  tx_Version :: "64 word"
  tx_Runlimit :: int

datatype CommitmentsTx = NewCommitmentsTx Tx

record UnsignedBlock =
  Header :: BlockHeader
  Transactions :: "Tx list"

record Block =
  UnsignedBlock :: UnsignedBlock
  Arguments :: "bytes option list"

record Snapshot =
  contracts :: "Hash list"
  nonces :: "Hash list"
  timestamp_ms :: "64 word"
  height :: "64 word"

subsection \<open>The packages the program calls\<close>

text \<open>
  Each field is one package function, with the result type of its Go signature: a
  function returning \<^verbatim>\<open>(T, error)\<close> whose error the program checks at once returns
  \<open>error + T\<close>; a function returning only \<^verbatim>\<open>error\<close> returns \<open>error option\<close>;
  \<^verbatim>\<open>Snapshot.Bytes\<close> returns the pair as it is, because the program uses the bytes without
  looking at the error. \<^verbatim>\<open>BlockHeader.Hash\<close> and \<^verbatim>\<open>ed25519.Sign\<close> return no error.
  The block builder is a mutable object in Go; here its state is a value of type \<open>'bb\<close>
  that \<open>Start\<close> and \<open>AddTx\<close> return updated.
\<close>

record 'bb lib =
  hex_DecodeString :: "string \<Rightarrow> error + bytes"
  time_Parse :: "string \<Rightarrow> error + Time"
  Millis :: "Time \<Rightarrow> 64 word"
  Block_FromBytes :: "bytes \<Rightarrow> error + Block"
  Block_Bytes :: "Block \<Rightarrow> error + bytes"
  BlockHeader_Hash :: "BlockHeader \<Rightarrow> bytes"
  BlockHeader_Unmarshal :: "bytes \<Rightarrow> error + BlockHeader"
  RawTx_Unmarshal :: "bytes \<Rightarrow> error + RawTx"
  NewTx :: "bytes \<Rightarrow> 64 word \<Rightarrow> int \<Rightarrow> error + Tx"
  Snapshot_FromBytes :: "bytes \<Rightarrow> error + Snapshot"
  Snapshot_Bytes :: "Snapshot \<Rightarrow> bytes \<times> error option"
  NewBlockBuilder :: "'bb"
  Start :: "'bb \<Rightarrow> Snapshot \<Rightarrow> 64 word \<Rightarrow> error + 'bb"
  AddTx :: "'bb \<Rightarrow> CommitmentsTx \<Rightarrow> error + 'bb"
  Build :: "'bb \<Rightarrow> error + (UnsignedBlock \<times> Snapshot)"
  NewInitialBlock :: "bytes list \<Rightarrow> int \<Rightarrow> Time \<Rightarrow> error + Block"
  ed25519_Sign :: "bytes \<Rightarrow> bytes \<Rightarrow> bytes"
  validation_Block :: "UnsignedBlock \<Rightarrow> BlockHeader \<Rightarrow> error option"
  validation_BlockSig :: "Block \<Rightarrow> Predicate \<Rightarrow> error option"
  validation_BlockOnly :: "UnsignedBlock \<Rightarrow> error option"

subsection \<open>The environment of a run and what a run does\<close>

text \<open>
  What the operating system gives a run: the result of reading standard input to its
  end, of reading a named file, of writing a named file, and the clock.
\<close>

record world =
  stdin :: "error + bytes"
  readFile :: "string \<Rightarrow> error + bytes"
  writeFile :: "string \<Rightarrow> bytes \<Rightarrow> error option"
  now :: Time

text \<open>
  A run ends by returning from the mode function (exit status 0), by \<^verbatim>\<open>os.Exit\<close> or by
  a panic. The calls into the validator, the builder and \<^verbatim>\<open>NewInitialBlock\<close> are
  recorded in the order they are made, with their arguments.
\<close>

datatype status = Returned | Exited nat | Panicked error

datatype logline = PrintErr error | PrintStr string

datatype 'bb call =
    Call_Block UnsignedBlock BlockHeader
  | Call_BlockSig Block Predicate
  | Call_BlockOnly UnsignedBlock
  | Call_NewInitialBlock "bytes list" int Time
  | Call_Start 'bb Snapshot "64 word"
  | Call_AddTx CommitmentsTx
  | Call_Build 'bb

record 'bb run =
  status :: status
  stdout :: "bytes list"
  stderr :: "logline list"
  calls :: "'bb call list"
  files :: "(string \<times> bytes) list"

text \<open>\<^verbatim>\<open>must(err)\<close> with a non-nil error: the run panics with that error.\<close>

definition must :: "error \<Rightarrow> 'bb call list \<Rightarrow> 'bb run" where
  "must e cs = \<lparr>status = Panicked e, stdout = [], stderr = [], calls = cs, files = []\<rparr>"

text \<open>\<^verbatim>\<open>fmt.Fprintln(os.Stderr, x); os.Exit(1)\<close>.\<close>

definition exit1 :: "logline \<Rightarrow> 'bb call list \<Rightarrow> 'bb run" where
  "exit1 l cs = \<lparr>status = Exited 1, stdout = [], stderr = [l], calls = cs, files = []\<rparr>"

definition returned :: "bytes list \<Rightarrow> 'bb call list \<Rightarrow> (string \<times> bytes) list \<Rightarrow> 'bb run" where
  "returned out cs fs = \<lparr>status = Returned, stdout = out, stderr = [], calls = cs, files = fs\<rparr>"

subsection \<open>validate\<close>

text \<open>
  The first argument is the result of \<^verbatim>\<open>fs.Parse\<close>: an error, or the values of the
  flags \<^verbatim>\<open>-prev\<close>, \<^verbatim>\<open>-nosig\<close> and \<^verbatim>\<open>-noprev\<close>.
\<close>

definition validate ::
  "'bb lib \<Rightarrow> error + (string \<times> bool \<times> bool) \<Rightarrow> world \<Rightarrow> 'bb run" where
  "validate L parsed w =
    (case parsed of
       Inl e \<Rightarrow> must e []
     | Inr (prevHex, noSig, noPrev) \<Rightarrow>
    (case stdin w of
       Inl e \<Rightarrow> must e []
     | Inr inp \<Rightarrow>
    (case Block_FromBytes L inp of
       Inl e \<Rightarrow> exit1 (PrintErr e) []
     | Inr b \<Rightarrow>
       if prevHex \<noteq> [] then
         (case hex_DecodeString L prevHex of
            Inl e \<Rightarrow> must e []
          | Inr prevBytes \<Rightarrow>
         (case BlockHeader_Unmarshal L prevBytes of
            Inl e \<Rightarrow> must e []
          | Inr prev \<Rightarrow>
         (case validation_Block L (UnsignedBlock b) prev of
            Some e \<Rightarrow> exit1 (PrintErr e) [Call_Block (UnsignedBlock b) prev]
          | None \<Rightarrow>
            if \<not> noSig then
              (case validation_BlockSig L b (NextPredicate prev) of
                 Some e \<Rightarrow>
                   exit1 (PrintErr e)
                     [Call_Block (UnsignedBlock b) prev, Call_BlockSig b (NextPredicate prev)]
               | None \<Rightarrow>
                   returned []
                     [Call_Block (UnsignedBlock b) prev, Call_BlockSig b (NextPredicate prev)] [])
            else returned [] [Call_Block (UnsignedBlock b) prev] [])))
       else if Height (Header (UnsignedBlock b)) = 1 \<or> noPrev then
         (case validation_BlockOnly L (UnsignedBlock b) of
            Some e \<Rightarrow> exit1 (PrintErr e) [Call_BlockOnly (UnsignedBlock b)]
          | None \<Rightarrow> returned [] [Call_BlockOnly (UnsignedBlock b)] [])
       else exit1 (PrintStr ''previous blockheader not supplied'') [])))"

subsection \<open>The block timestamp\<close>

text \<open>
  \<^verbatim>\<open>build\<close> and \<^verbatim>\<open>new\<close> take the block timestamp the same way: the clock when the flag
  \<^verbatim>\<open>-time\<close> is empty, the flag parsed as RFC 3339 otherwise.
\<close>

definition block_time :: "'bb lib \<Rightarrow> world \<Rightarrow> string \<Rightarrow> error + Time" where
  "block_time L w timeStr = (if timeStr = [] then Inr (now w) else time_Parse L timeStr)"

subsection \<open>new\<close>

definition PublicKeySize :: nat where
  "PublicKeySize = 32"

text \<open>
  The loop over the pubkey arguments; \<open>pubkeys\<close> is the slice built so far. The loop
  stops at the first argument that is not hexadecimal (\<^verbatim>\<open>must(err)\<close>) or does not decode
  to \<open>PublicKeySize\<close> bytes.
\<close>

fun parse_pubkeys :: "'bb lib \<Rightarrow> string list \<Rightarrow> bytes list \<Rightarrow> error + bytes list" where
  "parse_pubkeys L [] pubkeys = Inr pubkeys"
| "parse_pubkeys L (pubkeyHex # rest) pubkeys =
    (case hex_DecodeString L pubkeyHex of
       Inl e \<Rightarrow> Inl e
     | Inr b \<Rightarrow>
         if length b \<noteq> PublicKeySize then Inl (BadPubkeyLength (length b))
         else parse_pubkeys L rest (pubkeys @ [b]))"

text \<open>
  The first argument is the result of \<^verbatim>\<open>fs.Parse\<close>: an error, or the values of the
  flags \<^verbatim>\<open>-quorum\<close> and \<^verbatim>\<open>-time\<close> and the remaining arguments.
\<close>

definition newBlock ::
  "'bb lib \<Rightarrow> error + (int \<times> string \<times> string list) \<Rightarrow> world \<Rightarrow> 'bb run" where
  "newBlock L parsed w =
    (case parsed of
       Inl e \<Rightarrow> must e []
     | Inr (quorum, timeStr, pubkeysHex) \<Rightarrow>
    (case parse_pubkeys L pubkeysHex [] of
       Inl e \<Rightarrow> must e []
     | Inr pubkeys \<Rightarrow>
       if quorum < 0 \<or> quorum > int (length pubkeys) then
         must (QuorumRange (length pubkeys)) []
       else
         (let quorum' = (if quorum = 0 then int (length pubkeys) else quorum) in
         (case block_time L w timeStr of
            Inl e \<Rightarrow> must e []
          | Inr ts \<Rightarrow>
         (case NewInitialBlock L pubkeys quorum' ts of
            Inl e \<Rightarrow> must e [Call_NewInitialBlock pubkeys quorum' ts]
          | Inr block \<Rightarrow>
         (case Block_Bytes L block of
            Inl e \<Rightarrow> must e [Call_NewInitialBlock pubkeys quorum' ts]
          | Inr blockBytes \<Rightarrow>
              returned [blockBytes] [Call_NewInitialBlock pubkeys quorum' ts] []))))))"

subsection \<open>sign\<close>

text \<open>
  \<^verbatim>\<open>fs.Arg(i)\<close> of Go's flag package: the i-th remaining argument, the empty string when
  there is none.
\<close>

definition fs_Arg :: "string list \<Rightarrow> nat \<Rightarrow> string" where
  "fs_Arg args i = (if i < length args then args ! i else [])"

text \<open>
  The callback the program hands to \<^verbatim>\<open>bc.SignBlock\<close>. \<open>Inr None\<close> is the return
  \<^verbatim>\<open>nil, nil\<close>; \<open>Inl e\<close> is the panic of \<^verbatim>\<open>must(err)\<close> inside the callback.
\<close>

definition signer :: "'bb lib \<Rightarrow> string list \<Rightarrow> bytes \<Rightarrow> nat \<Rightarrow> error + bytes option" where
  "signer L args hash idx =
    (let arg = fs_Arg args idx in
     if arg \<noteq> [] then
       (case hex_DecodeString L arg of
          Inl e \<Rightarrow> Inl e
        | Inr prv \<Rightarrow> Inr (Some (ed25519_Sign L prv hash)))
     else Inr None)"

text \<open>
  Modelled from the spec: \<^verbatim>\<open>bc.SignBlock\<close> is not among the source files. The spec
  (4.4, Multisig Signer): for each index \<open>i\<close> of the previous predicate's pubkeys it
  invokes the signer function; a returned "abstain" leaves that slot absent; the results
  are assembled into the signature list by index. The previous predicate is the next
  predicate of the previous header the program passes. The indices are visited in
  ascending order here, and a failing call of the signer function ends the operation
  with its error.
\<close>

fun signSlots :: "(nat \<Rightarrow> error + bytes option) \<Rightarrow> nat list \<Rightarrow> error + bytes option list" where
  "signSlots signerFn [] = Inr []"
| "signSlots signerFn (i # rest) =
    (case signerFn i of
       Inl e \<Rightarrow> Inl e
     | Inr s \<Rightarrow>
        (case signSlots signerFn rest of
           Inl e \<Rightarrow> Inl e
         | Inr ss \<Rightarrow> Inr (s # ss)))"

definition SignBlock ::
  "UnsignedBlock \<Rightarrow> BlockHeader \<Rightarrow> (nat \<Rightarrow> error + bytes option) \<Rightarrow> error + Block" where
  "SignBlock ub prev signerFn =
    (case signSlots signerFn [0..<length (Pubkeys (NextPredicate prev))] of
       Inl e \<Rightarrow> Inl e
     | Inr sigs \<Rightarrow> Inr \<lparr>UnsignedBlock = ub, Arguments = sigs\<rparr>)"

text \<open>
  The first argument is the result of \<^verbatim>\<open>fs.Parse\<close>: an error, or the value of the flag
  \<^verbatim>\<open>-prev\<close> and the remaining arguments (the private keys). \<^verbatim>\<open>block.Hash()\<close> is the
  method of the embedded header.
\<close>

definition sign :: "'bb lib \<Rightarrow> error + (string \<times> string list) \<Rightarrow> world \<Rightarrow> 'bb run" where
  "sign L parsed w =
    (case parsed of
       Inl e \<Rightarrow> must e []
     | Inr (prevHex, args) \<Rightarrow>
    (case hex_DecodeString L prevHex of
       Inl e \<Rightarrow> must e []
     | Inr prevBytes \<Rightarrow>
    (case BlockHeader_Unmarshal L prevBytes of
       Inl e \<Rightarrow> must e []
     | Inr prev \<Rightarrow>
    (case stdin w of
       Inl e \<Rightarrow> must e []
     | Inr blockBytes \<Rightarrow>
    (case Block_FromBytes L blockBytes of
       Inl e \<Rightarrow> must e []
     | Inr block \<Rightarrow>
       (let hash = BlockHeader_Hash L (Header (UnsignedBlock block)) in
       (case SignBlock (UnsignedBlock block) prev (signer L args hash) of
          Inl e \<Rightarrow> must e []
        | Inr block' \<Rightarrow>
       (case Block_Bytes L block' of
          Inl e \<Rightarrow> must e []
        | Inr blockBytes' \<Rightarrow> returned [blockBytes'] [] []))))))))"

subsection \<open>build\<close>

text \<open>
  The first three steps of the loop body: the file named by the argument is read,
  unmarshalled as a raw transaction and turned into a transaction.
\<close>

definition loadTx :: "'bb lib \<Rightarrow> world \<Rightarrow> string \<Rightarrow> error + Tx" where
  "loadTx L w arg =
    (case readFile w arg of
       Inl e \<Rightarrow> Inl e
     | Inr txbits \<Rightarrow>
    (case RawTx_Unmarshal L txbits of
       Inl e \<Rightarrow> Inl e
     | Inr rawTx \<Rightarrow> NewTx L (Program rawTx) (raw_Version rawTx) (raw_Runlimit rawTx)))"

text \<open>
  The loop over the transaction file arguments, from the builder state \<open>bb\<close>: the calls
  of \<^verbatim>\<open>AddTx\<close> it makes, and the error that stops it or the builder state it ends in.
\<close>

fun addTxs ::
  "'bb lib \<Rightarrow> world \<Rightarrow> string list \<Rightarrow> 'bb \<Rightarrow> 'bb call list \<times> (error + 'bb)" where
  "addTxs L w [] bb = ([], Inr bb)"
| "addTxs L w (arg # rest) bb =
    (case loadTx L w arg of
       Inl e \<Rightarrow> ([], Inl e)
     | Inr tx \<Rightarrow>
    (case AddTx L bb (NewCommitmentsTx tx) of
       Inl e \<Rightarrow> ([Call_AddTx (NewCommitmentsTx tx)], Inl e)
     | Inr bb' \<Rightarrow>
        (case addTxs L w rest bb' of
           (cs, r) \<Rightarrow> (Call_AddTx (NewCommitmentsTx tx) # cs, r))))"

text \<open>
  The first argument is the result of \<^verbatim>\<open>fs.Parse\<close>: an error, or the values of the
  flags \<^verbatim>\<open>-time\<close> and \<^verbatim>\<open>-snapout\<close> and the remaining arguments (the transaction files).
  Where the snapshot is written, the error of \<^verbatim>\<open>newSnapshot.Bytes()\<close> is assigned to
  \<^verbatim>\<open>err\<close> and overwritten by the result of \<^verbatim>\<open>ioutil.WriteFile\<close> before it is looked at:
  only the bytes of the pair are used.
\<close>

definition build ::
  "'bb lib \<Rightarrow> error + (string \<times> string \<times> string list) \<Rightarrow> world \<Rightarrow> 'bb run" where
  "build L parsed w =
    (case parsed of
       Inl e \<Rightarrow> must e []
     | Inr (timeStr, snapOut, args) \<Rightarrow>
    (case block_time L w timeStr of
       Inl e \<Rightarrow> must e []
     | Inr ts \<Rightarrow>
       (let timestampMS = Millis L ts;
            bb = NewBlockBuilder L in
       (case stdin w of
          Inl e \<Rightarrow> must e []
        | Inr snapshotBits \<Rightarrow>
       (case Snapshot_FromBytes L snapshotBits of
          Inl e \<Rightarrow> must e []
        | Inr snapshot \<Rightarrow>
       (case Start L bb snapshot timestampMS of
          Inl e \<Rightarrow> must e [Call_Start bb snapshot timestampMS]
        | Inr bb1 \<Rightarrow>
       (case addTxs L w args bb1 of
          (cs, Inl e) \<Rightarrow> must e (Call_Start bb snapshot timestampMS # cs)
        | (cs, Inr bb2) \<Rightarrow>
          (let cs' = Call_Start bb snapshot timestampMS # cs @ [Call_Build bb2] in
          (case Build L bb2 of
             Inl e \<Rightarrow> must e cs'
           | Inr (ub, newSnapshot) \<Rightarrow>
             (let snapWrite =
                (if snapOut \<noteq> [] then
                   (case Snapshot_Bytes L newSnapshot of
                      (newSnapshotBytes, err) \<Rightarrow>
                        (case writeFile w snapOut newSnapshotBytes of
                           Some e \<Rightarrow> Inl e
                         | None \<Rightarrow> Inr [(snapOut, newSnapshotBytes)]))
                 else Inr [])
              in
             (case snapWrite of
                Inl e \<Rightarrow> must e cs'
              | Inr written \<Rightarrow>
                (case Block_Bytes L \<lparr>UnsignedBlock = ub, Arguments = []\<rparr> of
                   Inl e \<Rightarrow> (must e cs')\<lparr>files := written\<rparr>
                 | Inr bbytes \<Rightarrow> returned [bbytes] cs' written))))))))))))"

subsection \<open>Successive calls of AddTx\<close>


section \<open>An instance of the packages, for running the model\<close>

text \<open>
  A small instance of the record \<open>lib\<close> and of the environment, on which the modes can
  be evaluated. Hexadecimal decoding is the real one; the codecs, the validator and the
  builder are toys: a block is encoded by its version byte followed by as many bytes as
  its height, a header by its height byte followed by one byte per pubkey, the builder
  state is the list of the transactions added so far, the toy signature is the key
  followed by the message.
\<close>

definition hexval :: "char \<Rightarrow> 8 word option" where
  "hexval c =
    (let n = (of_char c :: nat) in
     if 48 \<le> n \<and> n \<le> 57 then Some (of_nat (n - 48))
     else if 97 \<le> n \<and> n \<le> 102 then Some (of_nat (n - 87))
     else if 65 \<le> n \<and> n \<le> 70 then Some (of_nat (n - 55))
     else None)"

fun hexDecode :: "string \<Rightarrow> error + bytes" where
  "hexDecode [] = Inr []"
| "hexDecode [c] =
    (case hexval c of
       None \<Rightarrow> Inl (LibError ''encoding/hex: invalid byte'')
     | Some a \<Rightarrow> Inl (LibError ''encoding/hex: odd length hex string''))"
| "hexDecode (p # q # rest) =
    (case hexval p of
       None \<Rightarrow> Inl (LibError ''encoding/hex: invalid byte'')
     | Some a \<Rightarrow>
    (case hexval q of
       None \<Rightarrow> Inl (LibError ''encoding/hex: invalid byte'')
     | Some b \<Rightarrow>
    (case hexDecode rest of
       Inl e \<Rightarrow> Inl e
     | Inr bs \<Rightarrow> Inr ((16 * a + b) # bs))))"

definition demo_header :: "64 word \<Rightarrow> bytes list \<Rightarrow> BlockHeader" where
  "demo_header h pks =
    \<lparr>Version = 3, Height = h, PreviousBlockId = None, TimestampMs = 0, Runlimit = 0,
     RefsCount = 0, TransactionsRoot = [], ContractsRoot = [], NoncesRoot = [],
     NextPredicate = \<lparr>pred_Version = 1, Quorum = int (length pks), Pubkeys = pks\<rparr>\<rparr>"

definition demo_block :: "64 word \<Rightarrow> 64 word \<Rightarrow> Block" where
  "demo_block v h =
    \<lparr>UnsignedBlock = \<lparr>Header = (demo_header h [])\<lparr>Version := v\<rparr>, Transactions = []\<rparr>,
     Arguments = []\<rparr>"

definition demo_lib :: "CommitmentsTx list lib" where
  "demo_lib =
    \<lparr>hex_DecodeString = hexDecode,
     time_Parse = (\<lambda>s. if s = ''2018-01-01T00:00:00Z'' then Inr 1514764800
                        else Inl (LibError ''cannot parse time'')),
     Millis = (\<lambda>t. word_of_int (t * 1000)),
     Block_FromBytes = (\<lambda>bs. case bs of
         [] \<Rightarrow> Inl (LibError ''unexpected EOF'')
       | v # rest \<Rightarrow> Inr (demo_block (ucast v) (of_nat (length rest)))),
     Block_Bytes = (\<lambda>b. Inr
         (ucast (Height (Header (UnsignedBlock b)))
          # concat (map tx_Program (Transactions (UnsignedBlock b)))
          @ concat (map (\<lambda>a. case a of None \<Rightarrow> [0] | Some s \<Rightarrow> 1 # s) (Arguments b)))),
     BlockHeader_Hash = (\<lambda>h. [ucast (Height h), 255]),
     BlockHeader_Unmarshal = (\<lambda>bs. case bs of
         [] \<Rightarrow> Inl (LibError ''unexpected EOF'')
       | n # ks \<Rightarrow> Inr (demo_header (ucast n) (map (\<lambda>k. [k]) ks))),
     RawTx_Unmarshal = (\<lambda>bs. case bs of
         [] \<Rightarrow> Inl (LibError ''unexpected EOF'')
       | v # p \<Rightarrow> Inr \<lparr>Program = p, raw_Version = ucast v, raw_Runlimit = 100\<rparr>),
     NewTx = (\<lambda>p v r. Inr \<lparr>tx_Program = p, tx_Version = v, tx_Runlimit = r\<rparr>),
     Snapshot_FromBytes = (\<lambda>bs.
         Inr \<lparr>contracts = [], nonces = [bs], timestamp_ms = 0, height = 1\<rparr>),
     Snapshot_Bytes = (\<lambda>s. (concat (nonces s), None)),
     NewBlockBuilder = [],
     Start = (\<lambda>bb s t. if timestamp_ms s < t then Inr [] else Inl (LibError ''stale timestamp'')),
     AddTx = (\<lambda>bb c. Inr (bb @ [c])),
     Build = (\<lambda>bb. Inr
         (\<lparr>Header = demo_header 2 [],
           Transactions = map (\<lambda>c. case c of NewCommitmentsTx t \<Rightarrow> t) bb\<rparr>,
          \<lparr>contracts = [],
           nonces = map (\<lambda>c. case c of NewCommitmentsTx t \<Rightarrow> tx_Program t) bb,
           timestamp_ms = 0, height = 2\<rparr>)),
     NewInitialBlock = (\<lambda>pks q t. Inr
         \<lparr>UnsignedBlock =
            \<lparr>Header = (demo_header 1 pks)\<lparr>NextPredicate :=
                 \<lparr>pred_Version = 1, Quorum = q, Pubkeys = pks\<rparr>\<rparr>,
             Transactions = []\<rparr>,
          Arguments = []\<rparr>),
     ed25519_Sign = (\<lambda>prv msg. prv @ msg),
     validation_Block = (\<lambda>ub prev.
         if Height (Header ub) = Height prev + 1 then None
         else Some (LibError ''bad height'')),
     validation_BlockSig = (\<lambda>b p.
         if length (Arguments b) = length (Pubkeys p) then None
         else Some (LibError ''bad signatures'')),
     validation_BlockOnly = (\<lambda>ub.
         if Version (Header ub) = 3 then None else Some (LibError ''bad version''))\<rparr>"

definition demo_world :: "bytes \<Rightarrow> Time \<Rightarrow> world" where
  "demo_world inp t =
    \<lparr>stdin = Inr inp,
     readFile = (\<lambda>name. if name = ''tx1'' then Inr [1, 7]
                         else if name = ''tx2'' then Inr [1, 9]
                         else Inl (LibError ''no such file'')),
     writeFile = (\<lambda>name bs. None),
     now = t\<rparr>"

definition demo_key :: string where
  "demo_key = ''0102030405060708090a0b0c0d0e0f101112131415161718191a1b1c1d1e1f20''"

section \<open>Properties\<close>

subsection \<open>Facts about the instance\<close>

lemma demo_stdin: "stdin (demo_world inp t) = Inr inp"
  by (simp add: demo_world_def)

lemma demo_FromBytes:
  "Block_FromBytes demo_lib (v # rest) = Inr (demo_block (ucast v) (of_nat (length rest)))"
  by (simp add: demo_lib_def)

lemma demo_Height: "Height (Header (UnsignedBlock (demo_block v h))) = h"
  by (simp add: demo_block_def demo_header_def)

lemma demo_BlockOnly:
  "validation_BlockOnly demo_lib (UnsignedBlock (demo_block v h)) =
     (if v = 3 then None else Some (LibError ''bad version''))"
  by (simp add: demo_lib_def demo_block_def demo_header_def)

lemma demo_hex: "hex_DecodeString demo_lib = hexDecode"
  by (simp add: demo_lib_def)

lemma demo_Unmarshal:
  "BlockHeader_Unmarshal demo_lib (n # ks) = Inr (demo_header (ucast n) (map (\<lambda>k. [k]) ks))"
  by (simp add: demo_lib_def)

lemma demo_key_decodes:
  "hexDecode demo_key =
     Inr [1, 2, 3, 4, 5, 6, 7, 8, 9, 10, 11, 12, 13, 14, 15, 16, 17, 18, 19, 20,
          21, 22, 23, 24, 25, 26, 27, 28, 29, 30, 31, 32]"
  by (simp add: demo_key_def hexval_def)

lemma demo_parse_one: "parse_pubkeys demo_lib [demo_key] [] =
     Inr [[1, 2, 3, 4, 5, 6, 7, 8, 9, 10, 11, 12, 13, 14, 15, 16, 17, 18, 19, 20,
          21, 22, 23, 24, 25, 26, 27, 28, 29, 30, 31, 32]]"
  by (simp add: demo_hex demo_key_decodes PublicKeySize_def)

subsection \<open>validate\<close>

text \<open>Without \<^verbatim>\<open>-prev\<close>, a run that has read and decoded its block is decided by the
  height test alone.\<close>

lemma validate_no_prev:
  assumes "stdin w = Inr inp" and "Block_FromBytes L inp = Inr b"
  shows "validate L (Inr ([], noSig, noPrev)) w =
     (if Height (Header (UnsignedBlock b)) = 1 \<or> noPrev then
         (case validation_BlockOnly L (UnsignedBlock b) of
            Some e \<Rightarrow> exit1 (PrintErr e) [Call_BlockOnly (UnsignedBlock b)]
          | None \<Rightarrow> returned [] [Call_BlockOnly (UnsignedBlock b)] [])
       else exit1 (PrintStr ''previous blockheader not supplied'') [])"
  using assms by (simp add: validate_def)

text \<open>
  Claim C1. For every input block whose header height equals 1, when no previous header
  is supplied (the flag \<^verbatim>\<open>-prev\<close> is empty), \<^verbatim>\<open>validate\<close> applies only the structural
  check \<^verbatim>\<open>validation.BlockOnly\<close>: that is the only call it makes, so neither the
  linkage check nor the signature check is performed; and it accepts the block (returns,
  exit status 0) if and only if that check passes. When the check fails with an error,
  the run prints that error and exits with status 1. This holds whatever the flags
  \<^verbatim>\<open>-nosig\<close> and \<^verbatim>\<open>-noprev\<close> are.
\<close>

theorem validate_genesis_structure_only:
  assumes "stdin w = Inr inp"
    and "Block_FromBytes L inp = Inr b"
    and "Height (Header (UnsignedBlock b)) = 1"
  shows "calls (validate L (Inr ([], noSig, noPrev)) w) = [Call_BlockOnly (UnsignedBlock b)]
    \<and> (status (validate L (Inr ([], noSig, noPrev)) w) = Returned
          \<longleftrightarrow> validation_BlockOnly L (UnsignedBlock b) = None)
    \<and> (\<forall>e. validation_BlockOnly L (UnsignedBlock b) = Some e \<longrightarrow>
          status (validate L (Inr ([], noSig, noPrev)) w) = Exited 1
          \<and> stderr (validate L (Inr ([], noSig, noPrev)) w) = [PrintErr e])"
  using assms
  by (simp add: validate_no_prev exit1_def returned_def split: option.splits)

theorem validate_genesis_structure_only_witness:
  "calls (validate demo_lib (Inr ([], False, False)) (demo_world [3, 0] 0)) =
     [Call_BlockOnly (UnsignedBlock (demo_block 3 1))]
   \<and> status (validate demo_lib (Inr ([], False, False)) (demo_world [3, 0] 0)) = Returned
   \<and> status (validate demo_lib (Inr ([], False, False)) (demo_world [4, 0] 0)) = Exited 1
   \<and> stderr (validate demo_lib (Inr ([], False, False)) (demo_world [4, 0] 0)) =
       [PrintErr (LibError ''bad version'')]"
proof -
  have ok: "Block_FromBytes demo_lib [3, 0] = Inr (demo_block 3 1)"
    and bad: "Block_FromBytes demo_lib [4, 0] = Inr (demo_block 4 1)"
    by (simp_all add: demo_FromBytes)
  have h: "\<And>v. Height (Header (UnsignedBlock (demo_block v 1))) = 1"
    by (simp add: demo_Height)
  from validate_genesis_structure_only [OF demo_stdin ok h, where noSig = False and noPrev = False]
       validate_genesis_structure_only [OF demo_stdin bad h, where noSig = False and noPrev = False]
  show ?thesis by (simp add: demo_BlockOnly)
qed

text \<open>
  Claim C10. For every input block with height greater than 1, if neither a previous
  header (\<^verbatim>\<open>-prev\<close>) nor the flag \<^verbatim>\<open>-noprev\<close> is supplied, \<^verbatim>\<open>validate\<close> performs no
  validation check at all (it makes no call), prints
  \<^verbatim>\<open>previous blockheader not supplied\<close> on standard error and exits with status 1.
\<close>

theorem validate_missing_prev:
  assumes "stdin w = Inr inp"
    and "Block_FromBytes L inp = Inr b"
    and "1 < Height (Header (UnsignedBlock b))"
  shows "validate L (Inr ([], noSig, False)) w =
     \<lparr>status = Exited 1, stdout = [],
      stderr = [PrintStr ''previous blockheader not supplied''], calls = [], files = []\<rparr>"
  using assms
  by (auto simp add: validate_no_prev exit1_def)

theorem validate_missing_prev_witness:
  "validate demo_lib (Inr ([], True, False)) (demo_world [3, 0, 0] 0) =
     \<lparr>status = Exited 1, stdout = [],
      stderr = [PrintStr ''previous blockheader not supplied''], calls = [], files = []\<rparr>"
proof -
  have b: "Block_FromBytes demo_lib [3, 0, 0] = Inr (demo_block 3 2)"
    by (simp add: demo_FromBytes)
  have h: "1 < Height (Header (UnsignedBlock (demo_block 3 2)))"
    by (simp add: demo_Height)
  from validate_missing_prev [OF demo_stdin b h] show ?thesis .
qed

text \<open>
  Claim C2. For every block and every supplied previous header (the flag \<^verbatim>\<open>-prev\<close>
  decodes to the header \<open>prev\<close>): without \<^verbatim>\<open>-nosig\<close>, \<^verbatim>\<open>validate\<close> accepts the block
  if and only if the block passes the validation against \<open>prev\<close> and its signatures
  pass \<^verbatim>\<open>validation.BlockSig\<close> against \<^verbatim>\<open>prev.NextPredicate\<close>; the signature check is
  made, against that predicate, once the validation against \<open>prev\<close> has passed (a block
  that fails it is rejected there). With \<^verbatim>\<open>-nosig\<close> the only call is the validation
  against \<open>prev\<close>: no signature check is made, and the block is accepted if and only if
  that validation passes.
\<close>

theorem validate_against_prev:
  assumes "stdin w = Inr inp"
    and "Block_FromBytes L inp = Inr b"
    and "prevHex \<noteq> []"
    and "hex_DecodeString L prevHex = Inr prevBytes"
    and "BlockHeader_Unmarshal L prevBytes = Inr prev"
  shows "(\<not> noSig \<longrightarrow>
            (status (validate L (Inr (prevHex, noSig, noPrev)) w) = Returned \<longleftrightarrow>
               validation_Block L (UnsignedBlock b) prev = None
               \<and> validation_BlockSig L b (NextPredicate prev) = None)
          \<and> calls (validate L (Inr (prevHex, noSig, noPrev)) w) =
               Call_Block (UnsignedBlock b) prev #
               (if validation_Block L (UnsignedBlock b) prev = None
                then [Call_BlockSig b (NextPredicate prev)] else []))
    \<and> (noSig \<longrightarrow>
            (status (validate L (Inr (prevHex, noSig, noPrev)) w) = Returned \<longleftrightarrow>
               validation_Block L (UnsignedBlock b) prev = None)
          \<and> calls (validate L (Inr (prevHex, noSig, noPrev)) w) =
               [Call_Block (UnsignedBlock b) prev])"
  using assms
  by (simp add: validate_def exit1_def returned_def split: option.splits)

theorem validate_against_prev_witness:
  "status (validate demo_lib (Inr (''01'', False, False)) (demo_world [3, 0, 0] 0)) = Returned
   \<and> calls (validate demo_lib (Inr (''01'', False, False)) (demo_world [3, 0, 0] 0)) =
       [Call_Block (UnsignedBlock (demo_block 3 2)) (demo_header 1 []),
        Call_BlockSig (demo_block 3 2) (NextPredicate (demo_header 1 []))]
   \<and> status (validate demo_lib (Inr (''0107'', False, False)) (demo_world [3, 0, 0] 0)) \<noteq> Returned
   \<and> status (validate demo_lib (Inr (''0107'', True, False)) (demo_world [3, 0, 0] 0)) = Returned
   \<and> calls (validate demo_lib (Inr (''0107'', True, False)) (demo_world [3, 0, 0] 0)) =
       [Call_Block (UnsignedBlock (demo_block 3 2)) (demo_header 1 [[7]])]"
proof -
  have b: "Block_FromBytes demo_lib [3, 0, 0] = Inr (demo_block 3 2)"
    by (simp add: demo_FromBytes)
  have p1: "hex_DecodeString demo_lib ''01'' = Inr [1]"
    and p2: "hex_DecodeString demo_lib ''0107'' = Inr [1, 7]"
    by (simp_all add: demo_hex hexval_def)
  have u1: "BlockHeader_Unmarshal demo_lib [1] = Inr (demo_header 1 [])"
    and u2: "BlockHeader_Unmarshal demo_lib [1, 7] = Inr (demo_header 1 [[7]])"
    by (simp_all add: demo_Unmarshal)
  have ne: "''01'' \<noteq> []" "''0107'' \<noteq> []" by simp_all
  have link: "\<And>pks. validation_Block demo_lib (UnsignedBlock (demo_block 3 2)) (demo_header 1 pks) = None"
    by (simp add: demo_lib_def demo_block_def demo_header_def)
  have sig: "\<And>pks. validation_BlockSig demo_lib (demo_block 3 2) (NextPredicate (demo_header 1 pks)) =
      (if pks = [] then None else Some (LibError ''bad signatures''))"
    by (auto simp add: demo_lib_def demo_block_def demo_header_def)
  from validate_against_prev [OF demo_stdin b ne(1) p1 u1, where noSig = False and noPrev = False]
       validate_against_prev [OF demo_stdin b ne(2) p2 u2, where noSig = False and noPrev = False]
       validate_against_prev [OF demo_stdin b ne(2) p2 u2, where noSig = True and noPrev = False]
  show ?thesis by (simp add: link sig)
qed

subsection \<open>new\<close>

text \<open>Arguments that decode to keys of the right size are passed over by the loop.\<close>

lemma parse_pubkeys_prefix:
  assumes "\<forall>p \<in> set pre. \<exists>k. hex_DecodeString L p = Inr k \<and> length k = PublicKeySize"
  shows "\<exists>ks. length ks = length pre \<and>
           parse_pubkeys L (pre @ rest) acc = parse_pubkeys L rest (acc @ ks)"
  using assms
proof (induction pre arbitrary: acc)
  case Nil
  then show ?case by simp
next
  case (Cons p pre)
  from Cons.prems obtain k where k: "hex_DecodeString L p = Inr k" "length k = PublicKeySize"
    by auto
  from Cons.prems have "\<forall>p \<in> set pre. \<exists>k. hex_DecodeString L p = Inr k \<and> length k = PublicKeySize"
    by simp
  from Cons.IH [OF this, of "acc @ [k]"] obtain ks where
    ks: "length ks = length pre"
      "parse_pubkeys L (pre @ rest) (acc @ [k]) = parse_pubkeys L rest ((acc @ [k]) @ ks)"
    by blast
  show ?case
  proof (intro exI conjI)
    show "length (k # ks) = length (p # pre)" using ks(1) by simp
    show "parse_pubkeys L ((p # pre) @ rest) acc = parse_pubkeys L rest (acc @ k # ks)"
      using k ks(2) by simp
  qed
qed

text \<open>The calls a run of \<^verbatim>\<open>new\<close> makes.\<close>

lemma newBlock_calls:
  "calls (newBlock L (Inr (q, timeStr, pubkeysHex)) w) =
    (case parse_pubkeys L pubkeysHex [] of
       Inl e \<Rightarrow> []
     | Inr pubkeys \<Rightarrow>
        if q < 0 \<or> int (length pubkeys) < q then []
        else (case block_time L w timeStr of
                Inl e \<Rightarrow> []
              | Inr ts \<Rightarrow>
                 [Call_NewInitialBlock pubkeys (if q = 0 then int (length pubkeys) else q) ts]))"
  by (simp add: newBlock_def must_def returned_def Let_def split: sum.splits)

text \<open>
  Claim C8. For every pubkey argument given to \<^verbatim>\<open>new\<close> whose hexadecimal decoding
  does not yield exactly 32 bytes, the operation fails immediately with a
  bad-pubkey-length error and produces no block: when the loop over the arguments comes
  to an argument \<open>a\<close> that decodes to \<open>b\<close> with \<open>length b \<noteq> 32\<close> (the arguments
  before it being keys of 32 bytes), the run panics with
  \<^verbatim>\<open>bad pubkey length <length b>, want 32\<close>, writes nothing and never calls
  \<^verbatim>\<open>NewInitialBlock\<close>, whatever the quorum, the time and the later arguments are.
\<close>

theorem newBlock_bad_pubkey_length:
  assumes "pubkeysHex = pre @ a # post"
    and "\<forall>p \<in> set pre. \<exists>k. hex_DecodeString L p = Inr k \<and> length k = 32"
    and "hex_DecodeString L a = Inr b"
    and "length b \<noteq> 32"
  shows "newBlock L (Inr (q, timeStr, pubkeysHex)) w =
     \<lparr>status = Panicked (BadPubkeyLength (length b)), stdout = [], stderr = [],
      calls = [], files = []\<rparr>"
proof -
  from assms(2) have "\<forall>p \<in> set pre. \<exists>k. hex_DecodeString L p = Inr k \<and> length k = PublicKeySize"
    by (simp add: PublicKeySize_def)
  from parse_pubkeys_prefix [OF this, of "a # post" "[]"] obtain ks where
    "parse_pubkeys L (pre @ a # post) [] = parse_pubkeys L (a # post) ([] @ ks)"
    by blast
  then have "parse_pubkeys L pubkeysHex [] = Inl (BadPubkeyLength (length b))"
    using assms(1,3,4) by (simp add: PublicKeySize_def)
  then show ?thesis by (simp add: newBlock_def must_def)
qed

theorem newBlock_bad_pubkey_length_witness:
  "newBlock demo_lib (Inr (1, [], [demo_key, ''abcd'', ''zz''])) (demo_world [] 0) =
     \<lparr>status = Panicked (BadPubkeyLength 2), stdout = [], stderr = [],
      calls = [], files = []\<rparr>"
proof -
  have s: "[demo_key, ''abcd'', ''zz''] = [demo_key] @ ''abcd'' # [''zz'']" by simp
  have pre: "\<forall>p \<in> set [demo_key]. \<exists>k. hex_DecodeString demo_lib p = Inr k \<and> length k = 32"
    by (simp add: demo_hex demo_key_decodes)
  have a: "hex_DecodeString demo_lib ''abcd'' = Inr [171, 205]"
    by (simp add: demo_hex hexval_def)
  have l: "length [171, 205 :: 8 word] \<noteq> 32" by simp
  from newBlock_bad_pubkey_length [OF s pre a l] show ?thesis by simp
qed

text \<open>
  Claim C6. For every quorum value \<open>q\<close> and parsed pubkey list of length \<open>n\<close> given
  to \<^verbatim>\<open>new\<close>: if \<open>q < 0\<close> or \<open>q > n\<close> the run panics with the error
  \<^verbatim>\<open>-quorum must be between 1 and n\<close>, writes nothing and does not call
  \<^verbatim>\<open>NewInitialBlock\<close>; and in every run, whenever \<^verbatim>\<open>NewInitialBlock\<close> is called to
  create the predicate, it is called with the parsed pubkeys and a quorum between 0 and
  their number.
\<close>

theorem newBlock_quorum_range:
  "(\<forall>pubkeys. parse_pubkeys L pubkeysHex [] = Inr pubkeys \<and> (q < 0 \<or> int (length pubkeys) < q) \<longrightarrow>
      newBlock L (Inr (q, timeStr, pubkeysHex)) w =
        \<lparr>status = Panicked (QuorumRange (length pubkeys)), stdout = [], stderr = [],
         calls = [], files = []\<rparr>)
   \<and> (\<forall>pks q' ts. Call_NewInitialBlock pks q' ts
          \<in> set (calls (newBlock L (Inr (q, timeStr, pubkeysHex)) w)) \<longrightarrow>
        parse_pubkeys L pubkeysHex [] = Inr pks \<and> 0 \<le> q' \<and> q' \<le> int (length pks))"
proof (rule conjI)
  show "\<forall>pubkeys. parse_pubkeys L pubkeysHex [] = Inr pubkeys \<and> (q < 0 \<or> int (length pubkeys) < q) \<longrightarrow>
      newBlock L (Inr (q, timeStr, pubkeysHex)) w =
        \<lparr>status = Panicked (QuorumRange (length pubkeys)), stdout = [], stderr = [],
         calls = [], files = []\<rparr>"
    by (auto simp add: newBlock_def must_def)
next
  show "\<forall>pks q' ts. Call_NewInitialBlock pks q' ts
          \<in> set (calls (newBlock L (Inr (q, timeStr, pubkeysHex)) w)) \<longrightarrow>
        parse_pubkeys L pubkeysHex [] = Inr pks \<and> 0 \<le> q' \<and> q' \<le> int (length pks)"
  proof (intro allI impI)
    fix pks q' ts
    assume c: "Call_NewInitialBlock pks q' ts
      \<in> set (calls (newBlock L (Inr (q, timeStr, pubkeysHex)) w))"
    show "parse_pubkeys L pubkeysHex [] = Inr pks \<and> 0 \<le> q' \<and> q' \<le> int (length pks)"
    proof (cases "parse_pubkeys L pubkeysHex []")
      case (Inl e)
      with c show ?thesis by (simp add: newBlock_calls)
    next
      case (Inr pubkeys)
      show ?thesis
      proof (cases "block_time L w timeStr")
        case (Inl e)
        with c Inr show ?thesis by (simp add: newBlock_calls split: if_splits)
      next
        case ts: (Inr ts')
        from c Inr ts show ?thesis
          by (auto simp add: newBlock_calls split: if_splits)
      qed
    qed
  qed
qed

theorem newBlock_quorum_range_witness:
  "newBlock demo_lib (Inr (2, [], [demo_key])) (demo_world [] 5) =
     \<lparr>status = Panicked (QuorumRange 1), stdout = [], stderr = [], calls = [], files = []\<rparr>
   \<and> newBlock demo_lib (Inr (- 1, [], [demo_key])) (demo_world [] 5) =
     \<lparr>status = Panicked (QuorumRange 1), stdout = [], stderr = [], calls = [], files = []\<rparr>
   \<and> (\<exists>pks. calls (newBlock demo_lib (Inr (1, [], [demo_key])) (demo_world [] 5)) =
         [Call_NewInitialBlock pks 1 5] \<and> (0::int) \<le> 1 \<and> 1 \<le> int (length pks))"
proof -
  let ?pks = "[[1, 2, 3, 4, 5, 6, 7, 8, 9, 10, 11, 12, 13, 14, 15, 16, 17, 18, 19, 20,
          21, 22, 23, 24, 25, 26, 27, 28, 29, 30, 31, 32 :: 8 word]]"
  have c: "calls (newBlock demo_lib (Inr (1, [], [demo_key])) (demo_world [] 5)) =
         [Call_NewInitialBlock ?pks 1 5]"
    by (simp add: newBlock_calls demo_parse_one block_time_def demo_world_def del: parse_pubkeys.simps)
  from newBlock_quorum_range [of demo_lib "[demo_key]" 2 "[]" "demo_world [] 5"]
  have 1: "newBlock demo_lib (Inr (2, [], [demo_key])) (demo_world [] 5) =
     \<lparr>status = Panicked (QuorumRange 1), stdout = [], stderr = [], calls = [], files = []\<rparr>"
    by (simp add: demo_parse_one del: parse_pubkeys.simps)
  from newBlock_quorum_range [of demo_lib "[demo_key]" "- 1" "[]" "demo_world [] 5"]
  have 2: "newBlock demo_lib (Inr (- 1, [], [demo_key])) (demo_world [] 5) =
     \<lparr>status = Panicked (QuorumRange 1), stdout = [], stderr = [], calls = [], files = []\<rparr>"
    by (simp add: demo_parse_one del: parse_pubkeys.simps)
  from newBlock_quorum_range [of demo_lib "[demo_key]" 1 "[]" "demo_world [] 5"] c
  have 3: "(0::int) \<le> 1 \<and> 1 \<le> int (length ?pks)"
    by simp
  from 1 2 3 c show ?thesis by blast
qed



subsection \<open>sign\<close>

text \<open>The signature list holds, slot by slot, what the signer function returned.\<close>

lemma signSlots_Inr:
  "signSlots f idxs = Inr ss \<Longrightarrow>
     length ss = length idxs \<and> (\<forall>j < length idxs. f (idxs ! j) = Inr (ss ! j))"
proof (induction idxs arbitrary: ss)
  case Nil
  then show ?case by simp
next
  case (Cons i rest)
  from Cons.prems obtain s ss' where
    s: "f i = Inr s" and ss': "signSlots f rest = Inr ss'" and ss: "ss = s # ss'"
    by (auto split: sum.splits)
  from Cons.IH [OF ss'] have
    IH: "length ss' = length rest" "\<forall>j < length rest. f (rest ! j) = Inr (ss' ! j)"
    by simp_all
  show ?case
  proof (intro conjI allI impI)
    show "length ss = length (i # rest)" using ss IH(1) by simp
  next
    fix j assume "j < length (i # rest)"
    then show "f ((i # rest) ! j) = Inr (ss ! j)"
      using s ss IH(2) by (cases j) simp_all
  qed
qed

lemma SignBlock_Inr:
  assumes "SignBlock ub prev f = Inr sblock"
  shows "UnsignedBlock sblock = ub
       \<and> length (Arguments sblock) = length (Pubkeys (NextPredicate prev))
       \<and> (\<forall>i < length (Pubkeys (NextPredicate prev)). f i = Inr (Arguments sblock ! i))"
proof -
  from assms obtain sigs where
    sigs: "signSlots f [0..<length (Pubkeys (NextPredicate prev))] = Inr sigs"
    and sblock: "sblock = \<lparr>UnsignedBlock = ub, Arguments = sigs\<rparr>"
    by (auto simp add: SignBlock_def split: sum.splits)
  from signSlots_Inr [OF sigs] show ?thesis
    using sblock by simp
qed

text \<open>
  Claim C3. In \<^verbatim>\<open>sign\<close>, for every index \<open>i\<close> of the previous predicate's pubkeys:
  if no private-key argument is supplied at position \<open>i\<close> (\<^verbatim>\<open>fs.Arg(i)\<close> is empty) the
  signer callback returns absent; otherwise, the argument being the hexadecimal of a key
  \<open>prv\<close>, it returns the ed25519 signature by \<open>prv\<close> of \<open>hash\<close>, the hash of the
  header of the block read from standard input, computed before \<^verbatim>\<open>SignBlock\<close> is
  called. In a run that returns, the block written has the unsigned block that was read,
  one signature slot per pubkey, and slot \<open>i\<close> is absent in the first case and holds
  that signature in the second.
\<close>

theorem sign_signer_slots:
  assumes "hex_DecodeString L prevHex = Inr prevBytes"
    and "BlockHeader_Unmarshal L prevBytes = Inr prev"
    and "stdin w = Inr blockBytes"
    and "Block_FromBytes L blockBytes = Inr block"
    and "i < length (Pubkeys (NextPredicate prev))"
    and "hash = BlockHeader_Hash L (Header (UnsignedBlock block))"
  shows "(fs_Arg args i = [] \<longrightarrow> signer L args hash i = Inr None)
    \<and> (\<forall>prv. fs_Arg args i \<noteq> [] \<and> hex_DecodeString L (fs_Arg args i) = Inr prv \<longrightarrow>
          signer L args hash i = Inr (Some (ed25519_Sign L prv hash)))
    \<and> (status (sign L (Inr (prevHex, args)) w) = Returned \<longrightarrow>
         (\<exists>sblock out.
            stdout (sign L (Inr (prevHex, args)) w) = [out]
          \<and> Block_Bytes L sblock = Inr out
          \<and> UnsignedBlock sblock = UnsignedBlock block
          \<and> length (Arguments sblock) = length (Pubkeys (NextPredicate prev))
          \<and> (fs_Arg args i = [] \<longrightarrow> Arguments sblock ! i = None)
          \<and> (fs_Arg args i \<noteq> [] \<longrightarrow>
                (\<exists>prv. hex_DecodeString L (fs_Arg args i) = Inr prv
                     \<and> Arguments sblock ! i = Some (ed25519_Sign L prv hash)))))"
proof (intro conjI allI impI)
  show "signer L args hash i = Inr None" if "fs_Arg args i = []"
    using that by (simp add: signer_def)
next
  fix prv
  assume "fs_Arg args i \<noteq> [] \<and> hex_DecodeString L (fs_Arg args i) = Inr prv"
  then show "signer L args hash i = Inr (Some (ed25519_Sign L prv hash))"
    by (simp add: signer_def)
next
  assume ret: "status (sign L (Inr (prevHex, args)) w) = Returned"
  let ?f = "signer L args hash"
  from ret assms(1-4,6) obtain sblock where
    sblock: "SignBlock (UnsignedBlock block) prev ?f = Inr sblock"
    by (auto simp add: sign_def must_def split: sum.splits)
  with ret assms(1-4,6) obtain out where
    out: "Block_Bytes L sblock = Inr out"
    by (auto simp add: sign_def must_def split: sum.splits)
  have run: "stdout (sign L (Inr (prevHex, args)) w) = [out]"
    using assms(1-4,6) sblock out by (simp add: sign_def returned_def)
  from SignBlock_Inr [OF sblock] assms(5) have
    ub: "UnsignedBlock sblock = UnsignedBlock block"
    and len: "length (Arguments sblock) = length (Pubkeys (NextPredicate prev))"
    and slot: "?f i = Inr (Arguments sblock ! i)"
    by simp_all
  have absent: "fs_Arg args i = [] \<longrightarrow> Arguments sblock ! i = None"
    using slot by (auto simp add: signer_def Let_def)
  have present: "fs_Arg args i \<noteq> [] \<longrightarrow>
      (\<exists>prv. hex_DecodeString L (fs_Arg args i) = Inr prv
            \<and> Arguments sblock ! i = Some (ed25519_Sign L prv hash))"
    using slot by (auto simp add: signer_def Let_def split: sum.splits if_splits)
  from run out ub len absent present
  show "\<exists>sblock out.
            stdout (sign L (Inr (prevHex, args)) w) = [out]
          \<and> Block_Bytes L sblock = Inr out
          \<and> UnsignedBlock sblock = UnsignedBlock block
          \<and> length (Arguments sblock) = length (Pubkeys (NextPredicate prev))
          \<and> (fs_Arg args i = [] \<longrightarrow> Arguments sblock ! i = None)
          \<and> (fs_Arg args i \<noteq> [] \<longrightarrow>
                (\<exists>prv. hex_DecodeString L (fs_Arg args i) = Inr prv
                     \<and> Arguments sblock ! i = Some (ed25519_Sign L prv hash)))"
    by blast
qed

theorem sign_signer_slots_witness:
  "signer demo_lib [''aa'', [], ''bb''] [0, 255] 1 = Inr None
   \<and> signer demo_lib [''aa'', [], ''bb''] [0, 255] 2 = Inr (Some (ed25519_Sign demo_lib [187] [0, 255]))
   \<and> sign demo_lib (Inr (''00070809'', [''aa'', [], ''bb''])) (demo_world [3] 0) =
       \<lparr>status = Returned, stdout = [[0, 1, 170, 0, 255, 0, 1, 187, 0, 255]], stderr = [],
        calls = [], files = []\<rparr>"
proof -
  let ?args = "[''aa'', [], ''bb'']"
  have p: "hex_DecodeString demo_lib ''00070809'' = Inr [0, 7, 8, 9]"
    by (simp add: demo_hex hexval_def)
  have u: "BlockHeader_Unmarshal demo_lib [0, 7, 8, 9] = Inr (demo_header 0 [[7], [8], [9]])"
    by (simp add: demo_Unmarshal)
  have b: "Block_FromBytes demo_lib [3] = Inr (demo_block 3 0)"
    by (simp add: demo_FromBytes)
  have h: "[0, 255] = BlockHeader_Hash demo_lib (Header (UnsignedBlock (demo_block 3 0)))"
    by (simp add: demo_lib_def demo_block_def demo_header_def)
  have i1: "1 < length (Pubkeys (NextPredicate (demo_header 0 [[7], [8], [9]])))"
    and i2: "2 < length (Pubkeys (NextPredicate (demo_header 0 [[7], [8], [9]])))"
    by (simp_all add: demo_header_def)
  have a1: "fs_Arg ?args 1 = []" and a2: "fs_Arg ?args 2 = ''bb''"
    by (simp_all add: fs_Arg_def)
  have d2: "hex_DecodeString demo_lib ''bb'' = Inr [187]"
    by (simp add: demo_hex hexval_def)
  have run: "sign demo_lib (Inr (''00070809'', ?args)) (demo_world [3] 0) =
       \<lparr>status = Returned, stdout = [[0, 1, 170, 0, 255, 0, 1, 187, 0, 255]], stderr = [],
        calls = [], files = []\<rparr>"
    by (simp add: sign_def demo_stdin p u b SignBlock_def signer_def fs_Arg_def
          demo_lib_def demo_block_def demo_header_def hexval_def returned_def upt_rec)
  from sign_signer_slots [OF p u demo_stdin b i1 h, of ?args]
       sign_signer_slots [OF p u demo_stdin b i2 h, of ?args]
  show ?thesis using a1 a2 d2 run by simp
qed

subsection \<open>build\<close>







text \<open>
  Claim C7 says that every error met by \<^verbatim>\<open>build\<close>, the failure to serialize the
  updated snapshot included, is surfaced and aborts the run. The program does not do
  that: with \<^verbatim>\<open>-snapout snap\<close> and a snapshot whose \<^verbatim>\<open>Bytes()\<close> returns an error,
  the run writes the bytes returned with the error to the file, writes the block and
  returns with exit status 0. Here the instance is changed so that serializing a snapshot
  fails with no bytes.
\<close>

theorem build_ignores_snapshot_serialization_error:
  "build (demo_lib\<lparr>Snapshot_Bytes := (\<lambda>s. ([], Some (LibError ''cannot marshal snapshot'')))\<rparr>)
      (Inr (''2018-01-01T00:00:00Z'', ''snap'', [''tx1''])) (demo_world [3] 0) =
    \<lparr>status = Returned,
     stdout = [[2, 7]],
     stderr = [],
     calls =
       [Call_Start [] \<lparr>contracts = [], nonces = [[3]], timestamp_ms = 0, height = 1\<rparr> 1514764800000,
        Call_AddTx (NewCommitmentsTx \<lparr>tx_Program = [7], tx_Version = 1, tx_Runlimit = 100\<rparr>),
        Call_Build [NewCommitmentsTx \<lparr>tx_Program = [7], tx_Version = 1, tx_Runlimit = 100\<rparr>]],
     files = [(''snap'', [])]\<rparr>"
  by (simp add: build_def block_time_def loadTx_def demo_world_def demo_lib_def
        demo_header_def must_def returned_def)

end
